theory Spec2Isabelle
  imports Main "HOL-Library.Sublist"
begin

section \<open>Query strings: \<open>URLSearchParams\<close>\<close>

text \<open>
  A \<open>URLSearchParams\<close> object is an ordered list of name/value pairs in which a name may
  occur several times. The operations below are the ones the application calls
  (\<open>get\<close>, \<open>set\<close>, \<open>delete\<close>, \<open>append\<close> and the copy constructor), each with the
  behaviour the URL standard gives it.
\<close>

type_synonym URLSearchParams = "(string \<times> string) list"

text \<open>\<open>new URLSearchParams(init)\<close> on another parameter object copies its pairs.\<close>

definition URLSearchParams_new :: "URLSearchParams \<Rightarrow> URLSearchParams" where
  "URLSearchParams_new init = init"

text \<open>\<open>get(name)\<close>: the value of the first pair with that name, \<open>null\<close> when there is none.\<close>

fun URLSearchParams_get :: "URLSearchParams \<Rightarrow> string \<Rightarrow> string option" where
  "URLSearchParams_get [] name = None"
| "URLSearchParams_get ((k, v) # ps) name =
     (if k = name then Some v else URLSearchParams_get ps name)"

text \<open>\<open>delete(name)\<close>: removes every pair with that name.\<close>

definition URLSearchParams_delete :: "URLSearchParams \<Rightarrow> string \<Rightarrow> URLSearchParams" where
  "URLSearchParams_delete ps name = filter (\<lambda>p. fst p \<noteq> name) ps"

text \<open>\<open>append(name, value)\<close>: adds a pair at the end, whatever is there already.\<close>

definition URLSearchParams_append :: "URLSearchParams \<Rightarrow> string \<Rightarrow> string \<Rightarrow> URLSearchParams" where
  "URLSearchParams_append ps name val = ps @ [(name, val)]"

text \<open>
  \<open>set(name, value)\<close>: when a pair with that name exists, the first one takes the value
  and the later ones are removed; otherwise the pair is appended.
\<close>

fun URLSearchParams_set :: "URLSearchParams \<Rightarrow> string \<Rightarrow> string \<Rightarrow> URLSearchParams" where
  "URLSearchParams_set [] name val = [(name, val)]"
| "URLSearchParams_set ((k, v) # ps) name val =
     (if k = name then (name, val) # URLSearchParams_delete ps name
      else (k, v) # URLSearchParams_set ps name val)"

text \<open>The pairs of a parameter list whose name is not \<open>name\<close>, in order.\<close>

definition others :: "string \<Rightarrow> URLSearchParams \<Rightarrow> URLSearchParams" where
  "others name ps = filter (\<lambda>p. fst p \<noteq> name) ps"

section \<open>Navigation: location, history and the router\<close>

text \<open>
  The page's URL is the state the search control reads and writes. \<open>usePathname\<close> and
  \<open>useSearchParams\<close> give the path and the query of the current history entry. The href
  handed to the router, \<open>`${pathname}?${params.toString()}`\<close>, is kept in parsed form
  (path and pair list): serialising a pair list and parsing the result give the list back.
\<close>

record location =
  pathname :: string
  searchParams :: URLSearchParams

text \<open>
  The session history: the entries behind the current one, the current one, and the
  entries ahead of it. \<open>replaced\<close> records, in order, every href that \<open>router.replace\<close>
  was called with.
\<close>

record navigation =
  past :: "location list"
  current :: location
  future :: "location list"
  replaced :: "location list"

definition usePathname :: "navigation \<Rightarrow> string" where
  "usePathname nav = pathname (current nav)"

definition useSearchParams :: "navigation \<Rightarrow> URLSearchParams" where
  "useSearchParams nav = searchParams (current nav)"

text \<open>\<open>router.replace(href)\<close> overwrites the current entry; the history keeps its length.\<close>

definition router_replace :: "location \<Rightarrow> navigation \<Rightarrow> navigation" where
  "router_replace href nav = nav\<lparr>current := href, replaced := replaced nav @ [href]\<rparr>"

section \<open>The search control (\<open>views/Home/components/search.tsx\<close>)\<close>

text \<open>
  The function given to \<open>useDebouncedCallback\<close>: it copies the current query, sets or
  deletes \<open>search\<close> according to the truthiness of the text (a string is falsy exactly
  when it is empty) and replaces the current history entry.
\<close>

definition handleSearch :: "string \<Rightarrow> navigation \<Rightarrow> navigation" where
  "handleSearch search nav =
     (let params = URLSearchParams_new (useSearchParams nav);
          params' = (if search \<noteq> [] then URLSearchParams_set params ''search'' search
                     else URLSearchParams_delete params ''search'')
      in router_replace \<lparr>pathname = usePathname nav, searchParams = params'\<rparr> nav)"

section \<open>Rendered output\<close>

text \<open>
  The JSX the components return, as a tree. A \<open>div\<close> carries its React key (when it has
  one), its class name and its children; \<open>span\<close> and \<open>label\<close> carry their text.
\<close>

datatype element =
    Div "int option" string "element list"
  | Span string
  | Label string
  | Text string
  | Input string string string string string
  | Suspense element "element list"

text \<open>The UTF-8 bytes of the letter a with acute accent, which the interface texts use.\<close>

definition a_acute :: string where
  "a_acute = [CHR 0xC3, CHR 0xA1]"

text \<open>
  \<open>x || ''\<close> on a value that is a string or \<open>null\<close>: the string itself when it is
  non-empty, the empty string otherwise.
\<close>

definition or_empty :: "string option \<Rightarrow> string" where
  "or_empty x = (case x of None \<Rightarrow> [] | Some v \<Rightarrow> if v \<noteq> [] then v else [])"

text \<open>
  The \<open>Search\<close> component. The fields of \<open>Input\<close> are, in order, \<open>name\<close>,
  \<open>className\<close>, \<open>type\<close>, \<open>placeholder\<close> and \<open>defaultValue\<close>.
\<close>

definition Search :: "navigation \<Rightarrow> element" where
  "Search nav =
     (let search = URLSearchParams_get (useSearchParams nav) ''search''
      in Div None ''flex flex-col gap-1''
           [Label (''Usu'' @ a_acute @ ''rios''),
            Input ''search'' ''border-2 border-gray-300 rounded-md p-2 min-w-[250px]'' ''text''
              (''Buscar usu'' @ a_acute @ ''rio'') (or_empty search)])"

text \<open>The \<open>defaultValue\<close> prop of the input that the rendered control contains.\<close>

fun defaultValue :: "element \<Rightarrow> string option" where
  "defaultValue (Div k c (l # Input n cl t p d # es)) = Some d"
| "defaultValue e = None"

subsection \<open>The debounced handler\<close>

text \<open>
  The state of the mounted control: the navigation state it reads and writes, and the
  timer of its debounced handler, which holds the latest argument and the milliseconds
  left until it fires. Time is counted in whole milliseconds.
\<close>

record control =
  router :: navigation
  timer :: "(string \<times> nat) option"

text \<open>What can happen to the control: the user changes the input, time passes, it unmounts.\<close>

datatype event = Keystroke string | Elapse nat | Unmount

text \<open>
  Modelled from the spec: \<open>useDebouncedCallback\<close> comes from the \<open>use-debounce\<close> package,
  which is not part of the sources. The specification describes it as a cancellable
  scheduled callback: a call schedules the callback after the delay, a new call cancels
  any unfired earlier schedule of the same timer, and unmounting discards a pending
  call. When the delay has passed without a new call, the callback runs once with the
  argument of the latest call.
\<close>

fun useDebouncedCallback ::
  "(string \<Rightarrow> navigation \<Rightarrow> navigation) \<Rightarrow> nat \<Rightarrow> event \<Rightarrow> control \<Rightarrow> control" where
  "useDebouncedCallback func wait (Keystroke v) c = c\<lparr>timer := Some (v, wait)\<rparr>"
| "useDebouncedCallback func wait (Elapse d) c =
     (case timer c of
        None \<Rightarrow> c
      | Some (v, left) \<Rightarrow>
          if left \<le> d then c\<lparr>router := func v (router c), timer := None\<rparr>
          else c\<lparr>timer := Some (v, left - d)\<rparr>)"
| "useDebouncedCallback func wait Unmount c = c\<lparr>timer := None\<rparr>"

text \<open>
  The control's reaction to one event: \<open>onChange\<close> calls the debounced \<open>handleSearch\<close>,
  created with a delay of 300 ms.
\<close>

definition Search_event :: "event \<Rightarrow> control \<Rightarrow> control" where
  "Search_event = useDebouncedCallback handleSearch 300"

fun run :: "event list \<Rightarrow> control \<Rightarrow> control" where
  "run [] c = c"
| "run (e # es) c = run es (Search_event e c)"


subsection \<open>The text in the input field\<close>

text \<open>
  The input is uncontrolled: line 31 gives it a \<open>defaultValue\<close> and no \<open>value\<close>, and
  no code of the control writes to the field. The text of the field is therefore kept by
  the browser. When the control mounts, the field shows the default value of that
  render; every change by the user replaces the text (and is what \<open>onChange\<close> reports);
  time passing, and with it the debounced write, leaves the text alone; unmounting
  removes the field. \<open>None\<close> stands for no field.
\<close>

fun field_text :: "string option \<Rightarrow> event \<Rightarrow> string option" where
  "field_text shown (Keystroke v) = (case shown of None \<Rightarrow> None | Some old \<Rightarrow> Some v)"
| "field_text shown (Elapse d) = shown"
| "field_text shown Unmount = None"

text \<open>
  The text the field displays after the events \<open>es\<close>, for a control that mounted in
  the navigation state \<open>nav\<close>.
\<close>

definition displayed :: "navigation \<Rightarrow> event list \<Rightarrow> string option" where
  "displayed nav es = foldl field_text (defaultValue (Search nav)) es"

section \<open>The directory client (\<open>app/actions/users.ts\<close>)\<close>

subsection \<open>Absolute URLs and the \<open>URL\<close> constructor\<close>

text \<open>A \<open>URL\<close> object: path and query as for a location, and the origin before them.\<close>

record URL = location +
  origin :: string

datatype error =
    TypeError
  | FetchRejected string
  | Error string string
  | SyntaxError

text \<open>
  \<open>TypeError\<close> is what \<open>new URL\<close> throws on an invalid URL, \<open>FetchRejected\<close> a rejection
  of the \<open>fetch\<close> promise itself (no response arrived), \<open>Error message cause\<close> the error
  \<open>getUsers\<close> throws, and \<open>SyntaxError\<close> the rejection of \<open>response.json()\<close> on a body that
  is not JSON.
\<close>

definition ascii_alpha :: "char \<Rightarrow> bool" where
  "ascii_alpha c =
     (let n = (of_char c :: nat) in (65 \<le> n \<and> n \<le> 90) \<or> (97 \<le> n \<and> n \<le> 122))"

definition ascii_digit :: "char \<Rightarrow> bool" where
  "ascii_digit c = (let n = (of_char c :: nat) in 48 \<le> n \<and> n \<le> 57)"

text \<open>
  The first states of the URL parser. The input loses its leading and trailing control
  characters and spaces, and every tab and newline. It must then start with a scheme:
  a letter, followed by letters, digits, \<open>+\<close>, \<open>-\<close> and \<open>.\<close>, up to a colon. The
  constructor is called without a base URL, so an input with no scheme is a failure.
\<close>

definition c0_or_space :: "char \<Rightarrow> bool" where
  "c0_or_space c = ((of_char c :: nat) \<le> 32)"

definition tab_or_newline :: "char \<Rightarrow> bool" where
  "tab_or_newline c = ((of_char c :: nat) \<in> {9, 10, 13})"

definition clean :: "string \<Rightarrow> string" where
  "clean s =
     filter (\<lambda>c. \<not> tab_or_newline c)
       (rev (dropWhile c0_or_space (rev (dropWhile c0_or_space s))))"

fun scheme_state :: "string \<Rightarrow> bool" where
  "scheme_state [] = False"
| "scheme_state (c # cs) =
     (if ascii_alpha c \<or> ascii_digit c \<or> c \<in> {CHR ''+'', CHR ''-'', CHR ''.''} then scheme_state cs
      else c = CHR '':'')"

fun scheme_start_state :: "string \<Rightarrow> bool" where
  "scheme_start_state [] = False"
| "scheme_start_state (c # cs) = (ascii_alpha c \<and> scheme_state cs)"

text \<open>
  \<open>new URL(input)\<close>. An \<open>undefined\<close> argument is converted to the string
  \<open>undefined\<close> first. The states of the parser after the scheme (host, path, query) are
  the parameter \<open>rest\<close>, which yields the parsed URL or fails.
\<close>

definition USVString :: "string option \<Rightarrow> string" where
  "USVString x = (case x of None \<Rightarrow> ''undefined'' | Some s \<Rightarrow> s)"

definition new_URL :: "(string \<Rightarrow> URL option) \<Rightarrow> string option \<Rightarrow> error + URL" where
  "new_URL rest input =
     (let s = clean (USVString input)
      in if scheme_start_state s
         then (case rest s of None \<Rightarrow> Inl TypeError | Some u \<Rightarrow> Inr u)
         else Inl TypeError)"

subsection \<open>Requests, responses and \<open>fetch\<close>\<close>

text \<open>What \<open>fetch\<close> is given: the URL, the method and the headers.\<close>

record request =
  url :: URL
  http_method :: string
  headers :: "(string \<times> string) list"

text \<open>
  Of a response the client reads the status text and the outcome of \<open>json()\<close>, which is
  the parsed body, or nothing when the body is not JSON. The parsed value is returned
  unchecked, so its type is left open.
\<close>

record 'd response =
  statusText :: string
  json :: "'d option"

text \<open>The process environment, and the log of the requests that were issued.\<close>

record env =
  API_URL :: "string option"

record world =
  requests :: "request list"

text \<open>
  \<open>fetch\<close>: the request is issued (and logged); the network answers with a response or
  the promise is rejected.
\<close>

definition fetch ::
  "(request \<Rightarrow> string + 'd response) \<Rightarrow> request \<Rightarrow> world \<Rightarrow> (string + 'd response) \<times> world" where
  "fetch network req w = (network req, w\<lparr>requests := requests w @ [req]\<rparr>)"

text \<open>The filter parameters, \<open>GetUsersParams\<close>: one text field.\<close>

record GetUsersParams =
  name :: string

text \<open>
  Lines 12 to 14 of \<open>getUsers\<close>: \<open>params?.name\<close> is truthy when the parameters are
  given and the name is a non-empty string; only then is the pair appended.
\<close>

definition request_url :: "URL \<Rightarrow> GetUsersParams option \<Rightarrow> URL" where
  "request_url url0 params =
     (case params of
        None \<Rightarrow> url0
      | Some p \<Rightarrow>
          if name p \<noteq> []
          then url0\<lparr>searchParams := URLSearchParams_append (searchParams url0) ''name'' (name p)\<rparr>
          else url0)"

text \<open>The request that \<open>fetch\<close> is called with (lines 16 to 21).\<close>

definition request_init :: "URL \<Rightarrow> request" where
  "request_init u =
     \<lparr>url = u, http_method = ''GET'', headers = [(''Content-Type'', ''application/json'')]\<rparr>"

text \<open>
  \<open>getUsers\<close>, statement by statement: the URL is built (a failure ends the call), the
  \<open>name\<close> parameter is appended, one request is sent, a status text other than \<open>OK\<close>
  throws, and the parsed body is returned.
\<close>

definition getUsers ::
  "(string \<Rightarrow> URL option) \<Rightarrow> (request \<Rightarrow> string + 'd response) \<Rightarrow> env \<Rightarrow>
   GetUsersParams option \<Rightarrow> world \<Rightarrow> (error + 'd) \<times> world" where
  "getUsers rest network e params w =
     (case new_URL rest (API_URL e) of
        Inl err \<Rightarrow> (Inl err, w)
      | Inr url0 \<Rightarrow>
          let (outcome, w') = fetch network (request_init (request_url url0 params)) w
          in (case outcome of
                Inl reason \<Rightarrow> (Inl (FetchRejected reason), w')
              | Inr response \<Rightarrow>
                  if statusText response \<noteq> ''OK''
                  then (Inl (Error ''Error fetching data'' (statusText response)), w')
                  else (case json response of
                          None \<Rightarrow> (Inl SyntaxError, w')
                        | Some body \<Rightarrow> (Inr body, w'))))"

section \<open>The cached query hook (\<open>hooks/useGetUsers.ts\<close>)\<close>

text \<open>
  The options the hook passes to \<open>useQuery\<close>. The key is the array \<open>['users', params]\<close>,
  the query function runs \<open>getUsers\<close> in the world, and the stale time is in milliseconds.
\<close>

datatype placeholder = keepPreviousData | no_placeholder

record ('w, 'd) UseQueryOptions =
  queryKey :: "string \<times> GetUsersParams"
  queryFn :: "'w \<Rightarrow> (error + 'd) \<times> 'w"
  staleTime :: nat
  placeholderData :: placeholder

text \<open>\<open>useGetUsers(params)\<close>: the options object of lines 5 to 10.\<close>

definition useGetUsers ::
  "(string \<Rightarrow> URL option) \<Rightarrow> (request \<Rightarrow> string + 'd response) \<Rightarrow> env \<Rightarrow>
   GetUsersParams \<Rightarrow> (world, 'd) UseQueryOptions" where
  "useGetUsers rest network e params =
     \<lparr>queryKey = (''users'', params),
      queryFn = getUsers rest network e (Some params),
      staleTime = 1000 * 60 * 5,
      placeholderData = keepPreviousData\<rparr>"

text \<open>
  An entry of the query cache: the resolved value and the time, in milliseconds, at
  which it resolved. The cache keeps its entries under their query keys.
\<close>

record 'd entry =
  resolved :: 'd
  updatedAt :: nat

type_synonym 'd QueryCache = "((string \<times> GetUsersParams) \<times> 'd entry) list"

text \<open>
  Modelled from the spec: the query library is not part of the sources. The
  specification describes its cache as a map from key to value and time stamp. A
  request that goes to the network runs the query function; a result that resolves is
  stored under the key with the time of the request, and a failure leaves the cache as
  it is.
\<close>

definition refetch ::
  "('w, 'd) UseQueryOptions \<Rightarrow> nat \<Rightarrow> 'd QueryCache \<times> 'w \<Rightarrow> (error + 'd) \<times> 'd QueryCache \<times> 'w" where
  "refetch opts now s =
     (case queryFn opts (snd s) of
        (Inl err, w') \<Rightarrow> (Inl err, fst s, w')
      | (Inr d, w') \<Rightarrow> (Inr d, (queryKey opts, \<lparr>resolved = d, updatedAt = now\<rparr>) # fst s, w'))"

text \<open>
  Modelled from the spec: \<open>useQuery\<close> comes from the query library. The specification
  gives its freshness policy: a resolved entry is fresh for the configured window, and
  a request for a key with a fresh entry reuses the entry without a network call. Any
  other request goes to the network.
\<close>

definition useQuery ::
  "('w, 'd) UseQueryOptions \<Rightarrow> nat \<Rightarrow> 'd QueryCache \<times> 'w \<Rightarrow> (error + 'd) \<times> 'd QueryCache \<times> 'w" where
  "useQuery opts now s =
     (case map_of (fst s) (queryKey opts) of
        None \<Rightarrow> refetch opts now s
      | Some en \<Rightarrow>
          if now < updatedAt en + staleTime opts then (Inr (resolved en), s)
          else refetch opts now s)"

text \<open>
  A series of requests through the hook, each with its filter parameters and the time
  at which it is made, one after the other on the same cache and world.
\<close>

fun serve ::
  "(string \<Rightarrow> URL option) \<Rightarrow> (request \<Rightarrow> string + 'd response) \<Rightarrow> env \<Rightarrow>
   (GetUsersParams \<times> nat) list \<Rightarrow> 'd QueryCache \<times> world \<Rightarrow> 'd QueryCache \<times> world" where
  "serve rest network e [] s = s"
| "serve rest network e ((p, t) # qs) s =
     serve rest network e qs (snd (useQuery (useGetUsers rest network e p) t s))"

section \<open>The presentation surface (\<open>views/Home/index.tsx\<close>)\<close>

text \<open>
  Modelled from the spec: the type \<open>User\<close> is imported from a file that is not part of
  the sources. The specification gives a user record an identifier, a display name, a
  username and an email address.
\<close>

record user =
  user_id :: int
  user_name :: string
  username :: string
  email :: string

text \<open>What the component reads of the hook's result.\<close>

record UseQueryResult =
  data :: "user list option"
  isLoading :: bool
  isError :: bool

definition box :: string where
  "box = ''border-2 border-gray-300 rounded-md p-2 mt-2''"

definition loading_indicator :: element where
  "loading_indicator = Div None box [Span (''Buscando usu'' @ a_acute @ ''rios...'')]"

definition error_indicator :: element where
  "error_indicator =
     Div None ''border-2 border-red-500 rounded-md p-2 mt-2''
       [Span (''Error ao buscar usu'' @ a_acute @ ''rios'')]"

definition empty_indicator :: element where
  "empty_indicator = Div None box [Span (''Nenhum usu'' @ a_acute @ ''rio encontrado'')]"

definition row :: "user \<Rightarrow> element" where
  "row u = Div (Some (user_id u)) box [Span (user_name u)]"

text \<open>
  The conditional expression of \<open>Home\<close>. \<open>users?.length\<close> is falsy when the data is
  \<open>undefined\<close> and when the list is empty.
\<close>

definition Home_results :: "UseQueryResult \<Rightarrow> element list" where
  "Home_results q =
     (if isLoading q then [loading_indicator]
      else if isError q then [error_indicator]
      else (case data q of
              None \<Rightarrow> [empty_indicator]
            | Some users \<Rightarrow>
                if length users \<noteq> 0 then map row users else [empty_indicator]))"

definition Home :: "UseQueryResult \<Rightarrow> navigation \<Rightarrow> element" where
  "Home q nav =
     Div None ''flex items-center justify-center h-screen''
       [Div None []
          [Suspense (Div None [] [Text ''Carregando...'']) [Search nav],
           Div None [] (Home_results q)]]"

text \<open>The part of the rendered page that shows the outcome of the query.\<close>

fun results :: "element \<Rightarrow> element list" where
  "results (Div k c [Div k' c' [s, Div k'' c'' es]]) = es"
| "results e = []"

text \<open>The rows of a rendered result: the keyed boxes, each with its key and its text.\<close>

fun rows :: "element list \<Rightarrow> (int \<times> string) list" where
  "rows [] = []"
| "rows (Div (Some k) c [Span t] # es) = (k, t) # rows es"
| "rows (e # es) = rows es"

text \<open>Which of the four indicators a rendered result shows.\<close>

definition shows_loading :: "element list \<Rightarrow> bool" where
  "shows_loading es = (loading_indicator \<in> set es)"

definition shows_error :: "element list \<Rightarrow> bool" where
  "shows_error es = (error_indicator \<in> set es)"

definition shows_list :: "element list \<Rightarrow> bool" where
  "shows_list es = (rows es \<noteq> [])"

definition shows_empty :: "element list \<Rightarrow> bool" where
  "shows_empty es = (empty_indicator \<in> set es)"

definition indicators :: "element list \<Rightarrow> bool list" where
  "indicators es = [shows_loading es, shows_error es, shows_list es, shows_empty es]"


text \<open>The filter text of a call: empty when the parameters are absent.\<close>

definition filter_text :: "GetUsersParams option \<Rightarrow> string" where
  "filter_text params = (case params of None \<Rightarrow> [] | Some p \<Rightarrow> name p)"

section \<open>A concrete scenario\<close>

text \<open>
  The configuration of the README: the directory of \<open>jsonplaceholder.typicode.com\<close>,
  which answers a query for \<open>Leanne\<close> with one record.
\<close>

definition example_url :: URL where
  "example_url =
     \<lparr>pathname = ''/users'', searchParams = [], origin = ''https://jsonplaceholder.typicode.com''\<rparr>"

definition example_rest :: "string \<Rightarrow> URL option" where
  "example_rest s =
     (if s = ''https://jsonplaceholder.typicode.com/users'' then Some example_url else None)"

definition example_env :: env where
  "example_env = \<lparr>API_URL = Some ''https://jsonplaceholder.typicode.com/users''\<rparr>"

definition unconfigured_env :: env where
  "unconfigured_env = \<lparr>API_URL = None\<rparr>"

text \<open>A configuration whose base URL carries a \<open>name\<close> parameter of its own.\<close>

definition named_url :: URL where
  "named_url =
     \<lparr>pathname = ''/users'', searchParams = [(''name'', ''x'')],
      origin = ''https://jsonplaceholder.typicode.com''\<rparr>"

definition named_rest :: "string \<Rightarrow> URL option" where
  "named_rest s =
     (if s = ''https://jsonplaceholder.typicode.com/users?name=x'' then Some named_url else None)"

definition named_env :: env where
  "named_env = \<lparr>API_URL = Some ''https://jsonplaceholder.typicode.com/users?name=x''\<rparr>"

definition leanne :: user where
  "leanne =
     \<lparr>user_id = 1, user_name = ''Leanne Graham'', username = ''Bret'',
      email = ''Sincere@april.biz''\<rparr>"

definition ervin :: user where
  "ervin =
     \<lparr>user_id = 2, user_name = ''Ervin Howell'', username = ''Antonette'',
      email = ''Shanna@melissa.tv''\<rparr>"

definition example_network :: "request \<Rightarrow> string + user list response" where
  "example_network req =
     (if URLSearchParams_get (searchParams (url req)) ''name'' = Some ''Leanne''
      then Inr \<lparr>statusText = ''OK'', json = Some [leanne]\<rparr>
      else Inr \<lparr>statusText = ''OK'', json = Some [leanne, ervin]\<rparr>)"

text \<open>A server that answers every request with status text \<open>OK\<close> and a body that is not JSON.\<close>

definition not_json_response :: "user list response" where
  "not_json_response = \<lparr>statusText = ''OK'', json = None\<rparr>"

definition not_json_network :: "request \<Rightarrow> string + user list response" where
  "not_json_network req = Inr not_json_response"

definition start_world :: world where
  "start_world = \<lparr>requests = []\<rparr>"

definition leanne_params :: GetUsersParams where
  "leanne_params = \<lparr>name = ''Leanne''\<rparr>"

text \<open>A page at \<open>/?page=2&search=Le\<close> with nothing typed yet.\<close>

definition example_nav :: navigation where
  "example_nav =
     \<lparr>past = [],
      current = \<lparr>pathname = ''/'', searchParams = [(''page'', ''2''), (''search'', ''Le'')]\<rparr>,
      future = [], replaced = []\<rparr>"


text \<open>A page at \<open>/?page=2\<close>, with no search text in its URL.\<close>

definition plain_nav :: navigation where
  "plain_nav =
     \<lparr>past = [],
      current = \<lparr>pathname = ''/'', searchParams = [(''page'', ''2'')]\<rparr>,
      future = [], replaced = []\<rparr>"

definition plain_control :: control where
  "plain_control = \<lparr>router = plain_nav, timer = None\<rparr>"

text \<open>A hook result that has data and reports both loading and an error.\<close>

definition busy_result :: UseQueryResult where
  "busy_result = \<lparr>data = Some [leanne], isLoading = True, isError = True\<rparr>"

definition loaded_result :: UseQueryResult where
  "loaded_result = \<lparr>data = Some [leanne, ervin], isLoading = False, isError = False\<rparr>"

section \<open>Properties of the query-string operations\<close>

lemma get_set_same: "URLSearchParams_get (URLSearchParams_set ps n v) n = Some v"
  by (induction ps) auto

lemma only_set: "filter (\<lambda>p. fst p = n) (URLSearchParams_set ps n v) = [(n, v)]"
  by (induction ps) (auto simp: URLSearchParams_delete_def)

lemma others_set: "others n (URLSearchParams_set ps n v) = others n ps"
  by (induction ps) (auto simp: others_def URLSearchParams_delete_def)

lemma others_delete: "others n (URLSearchParams_delete ps n) = others n ps"
  by (simp add: others_def URLSearchParams_delete_def)

lemma get_None_iff: "URLSearchParams_get ps n = None \<longleftrightarrow> n \<notin> fst ` set ps"
  by (induction ps) (force split: if_splits)+

lemma absent_delete: "n \<notin> fst ` set (URLSearchParams_delete ps n)"
  by (auto simp: URLSearchParams_delete_def)

lemma get_append_absent:
  "n \<notin> fst ` set ps \<Longrightarrow> URLSearchParams_get (URLSearchParams_append ps n v) n = Some v"
  by (induction ps) (auto simp: URLSearchParams_append_def)

lemma handleSearch_unfold:
  "handleSearch search nav =
     nav\<lparr>current :=
           \<lparr>pathname = pathname (current nav),
            searchParams =
              (if search \<noteq> [] then URLSearchParams_set (searchParams (current nav)) ''search'' search
               else URLSearchParams_delete (searchParams (current nav)) ''search'')\<rparr>,
         replaced := replaced nav @
           [\<lparr>pathname = pathname (current nav),
             searchParams =
               (if search \<noteq> [] then URLSearchParams_set (searchParams (current nav)) ''search'' search
                else URLSearchParams_delete (searchParams (current nav)) ''search'')\<rparr>]\<rparr>"
  by (simp add: handleSearch_def router_replace_def usePathname_def useSearchParams_def
      URLSearchParams_new_def Let_def)

section \<open>The write transition of the search control\<close>

text \<open>
  C3. When the timer fires, the handler runs with the text. Afterwards the current
  entry's query has \<open>search\<close> equal to the text when the text is non-empty (one pair
  with that name, holding the text) and no pair named \<open>search\<close> when the text is
  empty. The path is kept, the entries behind and ahead of the current one are
  untouched, and the new URL went to \<open>router.replace\<close>: the current entry is
  overwritten, nothing is pushed.
\<close>

theorem handleSearch_write:
  "(if text \<noteq> []
    then filter (\<lambda>p. fst p = ''search'') (searchParams (current (handleSearch text nav)))
           = [(''search'', text)]
       \<and> URLSearchParams_get (searchParams (current (handleSearch text nav))) ''search'' = Some text
    else ''search'' \<notin> fst ` set (searchParams (current (handleSearch text nav)))
       \<and> URLSearchParams_get (searchParams (current (handleSearch text nav))) ''search'' = None)
   \<and> pathname (current (handleSearch text nav)) = pathname (current nav)
   \<and> past (handleSearch text nav) = past nav
   \<and> future (handleSearch text nav) = future nav
   \<and> replaced (handleSearch text nav) = replaced nav @ [current (handleSearch text nav)]"
  by (simp add: handleSearch_unfold get_set_same only_set absent_delete get_None_iff)

theorem handleSearch_write_witness:
  "searchParams (current (handleSearch ''Leanne'' example_nav)) = [(''page'', ''2''), (''search'', ''Leanne'')]
   \<and> searchParams (current (handleSearch [] example_nav)) = [(''page'', ''2'')]
   \<and> past (handleSearch ''Leanne'' example_nav) = []
   \<and> future (handleSearch ''Leanne'' example_nav) = []"
  using handleSearch_write [of "''Leanne''" example_nav] handleSearch_write [of "[]" example_nav]
  by (simp add: handleSearch_unfold example_nav_def URLSearchParams_delete_def)

text \<open>
  C10. A write changes only the pairs named \<open>search\<close>: the pairs with any other name
  are, after the write, the same pairs with the same values in the same order as
  before, whatever the text and whatever the query was.
\<close>

theorem handleSearch_frame:
  "others ''search'' (searchParams (current (handleSearch text nav)))
     = others ''search'' (searchParams (current nav))"
  by (simp add: handleSearch_unfold others_set others_delete)

theorem handleSearch_frame_witness:
  "others ''search'' (searchParams (current (handleSearch ''Leanne'' example_nav))) = [(''page'', ''2'')]"
  using handleSearch_frame [of "''Leanne''" example_nav]
  by (simp add: example_nav_def others_def)

section \<open>The read transition of the search control\<close>

lemma Search_defaultValue:
  "defaultValue (Search nav) =
     Some (case URLSearchParams_get (useSearchParams nav) ''search'' of None \<Rightarrow> [] | Some v \<Rightarrow> v)"
  by (simp add: Search_def or_empty_def split: option.splits)

lemma field_stays:
  "Unmount \<notin> set es \<Longrightarrow> shown \<noteq> None \<Longrightarrow> foldl field_text shown es \<noteq> None"
proof (induction es arbitrary: shown)
  case Nil
  then show ?case by simp
next
  case (Cons e es)
  from Cons.prems have "field_text shown e \<noteq> None"
    by (cases e) auto
  with Cons show ?case by simp
qed

lemma displayed_mounted: "Unmount \<notin> set es \<Longrightarrow> displayed nav es \<noteq> None"
  unfolding displayed_def by (rule field_stays) (simp_all add: Search_defaultValue)

text \<open>
  C7. On every render the control hands to its input, as default value, the value of
  the \<open>search\<close> parameter of the current URL, and the empty string when the URL has no
  such parameter. The field displays that value when the control mounts. Once the user
  has changed the field it displays the text the user typed, as long as the control
  stays mounted, and time passing does not change what it displays.
\<close>

theorem Search_displayed_value:
  "defaultValue (Search nav) =
     Some (case URLSearchParams_get (useSearchParams nav) ''search'' of None \<Rightarrow> [] | Some v \<Rightarrow> v)
   \<and> (URLSearchParams_get (useSearchParams nav) ''search'' = None \<longrightarrow>
        defaultValue (Search nav) = Some [])
   \<and> displayed nav [] = defaultValue (Search nav)
   \<and> (Unmount \<notin> set es \<longrightarrow> displayed nav (es @ [Keystroke v]) = Some v)
   \<and> displayed nav (es @ [Elapse d]) = displayed nav es"
proof -
  have typed: "displayed nav (es @ [Keystroke v]) = Some v" if "Unmount \<notin> set es"
  proof -
    from displayed_mounted [OF that] obtain old where "displayed nav es = Some old"
      by blast
    then show ?thesis by (simp add: displayed_def)
  qed
  have absent: "defaultValue (Search nav) = Some []"
    if "URLSearchParams_get (useSearchParams nav) ''search'' = None"
    using that by (simp add: Search_defaultValue)
  have mount: "displayed nav [] = defaultValue (Search nav)"
    by (simp add: displayed_def)
  have wait: "displayed nav (es @ [Elapse d]) = displayed nav es"
    by (simp add: displayed_def)
  from Search_defaultValue [of nav] typed absent mount wait show ?thesis
    by blast
qed

theorem Search_displayed_value_witness:
  "displayed plain_nav [] = Some []
   \<and> displayed example_nav [] = Some ''Le''
   \<and> displayed example_nav ([Keystroke ''Lea'', Elapse 120] @ [Keystroke ''Lean'']) = Some ''Lean''"
proof -
  have u: "Unmount \<notin> set [Keystroke ''Lea'', Elapse 120]" by simp
  have a: "URLSearchParams_get (useSearchParams plain_nav) ''search'' = None"
    by (simp add: plain_nav_def useSearchParams_def)
  have b: "URLSearchParams_get (useSearchParams example_nav) ''search'' = Some ''Le''"
    by (simp add: example_nav_def useSearchParams_def)
  show ?thesis
    using Search_displayed_value [of plain_nav "[]"] a
      Search_displayed_value [of example_nav "[Keystroke ''Lea'', Elapse 120]" "''Lean''"] b u
    by simp
qed

text \<open>
  A render after the user has typed \<open>abc\<close> and before the debounced write: the URL has
  no \<open>search\<close> parameter, and the field displays \<open>abc\<close>, not the empty string.
\<close>

theorem Search_typed_text_counterexample:
  "URLSearchParams_get (useSearchParams (router (run [Keystroke ''abc''] plain_control))) ''search''
     = None
   \<and> defaultValue (Search (router (run [Keystroke ''abc''] plain_control))) = Some []
   \<and> displayed plain_nav [Keystroke ''abc''] = Some ''abc''"
proof -
  have r: "router (run [Keystroke ''abc''] plain_control) = plain_nav"
    by (simp add: Search_event_def plain_control_def)
  have a: "URLSearchParams_get (useSearchParams plain_nav) ''search'' = None"
    by (simp add: plain_nav_def useSearchParams_def)
  have "displayed plain_nav [Keystroke ''abc''] = Some ''abc''"
    by (simp add: displayed_def Search_defaultValue)
  with r a show ?thesis
    by (simp add: Search_defaultValue)
qed

section \<open>The presentation surface\<close>

lemma results_Home: "results (Home q nav) = Home_results q"
  by (simp add: Home_def)

lemma Home_results_cases:
  "isLoading q \<Longrightarrow> Home_results q = [loading_indicator]"
  "\<not> isLoading q \<Longrightarrow> isError q \<Longrightarrow> Home_results q = [error_indicator]"
  "\<not> isLoading q \<Longrightarrow> \<not> isError q \<Longrightarrow> data q = None \<Longrightarrow> Home_results q = [empty_indicator]"
  "\<not> isLoading q \<Longrightarrow> \<not> isError q \<Longrightarrow> data q = Some [] \<Longrightarrow> Home_results q = [empty_indicator]"
  "\<not> isLoading q \<Longrightarrow> \<not> isError q \<Longrightarrow> data q = Some us \<Longrightarrow> us \<noteq> [] \<Longrightarrow>
     Home_results q = map row us"
  by (simp_all add: Home_results_def)

lemma rows_map_row: "rows (map row us) = map (\<lambda>u. (user_id u, user_name u)) us"
  by (induction us) (auto simp: row_def)

lemma rows_indicator:
  "rows [loading_indicator] = []" "rows [error_indicator] = []" "rows [empty_indicator] = []"
  by (simp_all add: loading_indicator_def error_indicator_def empty_indicator_def)

lemma indicator_not_row:
  "loading_indicator \<noteq> row u" "error_indicator \<noteq> row u" "empty_indicator \<noteq> row u"
  by (simp_all add: loading_indicator_def error_indicator_def empty_indicator_def row_def)

lemma indicators_differ:
  "loading_indicator \<noteq> error_indicator" "loading_indicator \<noteq> empty_indicator"
  "error_indicator \<noteq> empty_indicator"
  by (simp_all add: loading_indicator_def error_indicator_def empty_indicator_def box_def)

lemma indicators_loading: "indicators [loading_indicator] = [True, False, False, False]"
  using indicators_differ
  by (simp add: indicators_def shows_loading_def shows_error_def shows_list_def shows_empty_def
      rows_indicator del: rows.simps)

lemma indicators_error: "indicators [error_indicator] = [False, True, False, False]"
  using indicators_differ
  by (simp add: indicators_def shows_loading_def shows_error_def shows_list_def shows_empty_def
      rows_indicator del: rows.simps)

lemma indicators_empty: "indicators [empty_indicator] = [False, False, False, True]"
  using indicators_differ
  by (simp add: indicators_def shows_loading_def shows_error_def shows_list_def shows_empty_def
      rows_indicator del: rows.simps)

lemma indicators_rows: "us \<noteq> [] \<Longrightarrow> indicators (map row us) = [False, False, True, False]"
  using indicator_not_row
  by (auto simp: indicators_def shows_loading_def shows_error_def shows_list_def shows_empty_def
      rows_map_row)

text \<open>The four indicators of the rendered page, for every result of the hook.\<close>

lemma Home_indicators:
  "indicators (results (Home q nav)) =
     (if isLoading q then [True, False, False, False]
      else if isError q then [False, True, False, False]
      else if data q \<noteq> None \<and> data q \<noteq> Some [] then [False, False, True, False]
      else [False, False, False, True])"
proof -
  consider "isLoading q" | "\<not> isLoading q" "isError q"
    | "\<not> isLoading q" "\<not> isError q" "data q = None"
    | "\<not> isLoading q" "\<not> isError q" "data q = Some []"
    | us where "\<not> isLoading q" "\<not> isError q" "data q = Some us" "us \<noteq> []"
    by (cases "data q") auto
  then show ?thesis
  proof cases
    case 1
    then show ?thesis by (simp add: results_Home Home_results_cases indicators_loading)
  next
    case 2
    then show ?thesis by (simp add: results_Home Home_results_cases indicators_error)
  next
    case 3
    then show ?thesis by (simp add: results_Home Home_results_cases indicators_empty)
  next
    case 4
    then show ?thesis by (simp add: results_Home Home_results_cases indicators_empty)
  next
    case 5
    then show ?thesis by (simp add: results_Home Home_results_cases indicators_rows)
  qed
qed

lemma Home_rows:
  assumes "\<not> isLoading q" "\<not> isError q" "data q = Some us"
  shows "rows (results (Home q nav)) = map (\<lambda>u. (user_id u, user_name u)) us"
proof (cases "us = []")
  case True
  with assms have "Home_results q = [empty_indicator]"
    by (simp add: Home_results_cases)
  with True show ?thesis
    by (simp only: results_Home rows_indicator list.map)
next
  case False
  with assms have "Home_results q = map row us"
    by (simp add: Home_results_cases)
  then show ?thesis
    by (simp only: results_Home rows_map_row)
qed

text \<open>
  C5. For every result of the hook the page shows exactly one of the four indicators
  (loading, error, list, empty state). Loading wins whenever \<open>isLoading\<close> holds, whatever
  the error flag and the data are; the error indicator is shown whenever \<open>isError\<close>
  holds without \<open>isLoading\<close>, whatever the data is; otherwise the list is shown for a
  non-empty list and the empty state for an empty or missing one.
\<close>

theorem Home_exactly_one_indicator:
  "length (filter (\<lambda>b. b) (indicators (results (Home q nav)))) = 1
   \<and> (isLoading q \<longrightarrow> shows_loading (results (Home q nav)))
   \<and> (\<not> isLoading q \<and> isError q \<longrightarrow> shows_error (results (Home q nav)))
   \<and> (\<not> isLoading q \<and> \<not> isError q \<longrightarrow>
        (if data q \<noteq> None \<and> data q \<noteq> Some [] then shows_list (results (Home q nav))
         else shows_empty (results (Home q nav))))"
proof -
  have "indicators (results (Home q nav)) =
          [shows_loading (results (Home q nav)), shows_error (results (Home q nav)),
           shows_list (results (Home q nav)), shows_empty (results (Home q nav))]"
    by (simp add: indicators_def)
  with Home_indicators [of q nav] show ?thesis
    by (simp split: if_splits)
qed

theorem Home_exactly_one_indicator_witness:
  "isLoading busy_result \<and> isError busy_result \<and> data busy_result = Some [leanne]
   \<and> shows_loading (results (Home busy_result example_nav))
   \<and> indicators (results (Home busy_result example_nav)) = [True, False, False, False]"
proof -
  have "isLoading busy_result" "isError busy_result" "data busy_result = Some [leanne]"
    by (simp_all add: busy_result_def)
  moreover from this Home_exactly_one_indicator [of busy_result example_nav]
  have "shows_loading (results (Home busy_result example_nav))"
    and "length (filter (\<lambda>b. b) (indicators (results (Home busy_result example_nav)))) = 1"
    by simp_all
  moreover from this
  have "indicators (results (Home busy_result example_nav)) = [True, False, False, False]"
    by (simp add: indicators_def split: if_splits)
  ultimately show ?thesis by simp
qed

text \<open>
  C6. When the hook has resolved (neither loading nor error) with a list of N records,
  the page shows exactly N rows, and the i-th row carries the identifier of the i-th
  record as its key and shows that record's display name.
\<close>

theorem Home_rows_in_order:
  assumes "\<not> isLoading q" and "\<not> isError q" and "data q = Some us"
  shows "length (rows (results (Home q nav))) = length us
       \<and> (\<forall>i < length us.
            rows (results (Home q nav)) ! i = (user_id (us ! i), user_name (us ! i)))"
  by (simp add: Home_rows [OF assms])

theorem Home_rows_in_order_witness:
  "\<not> isLoading loaded_result \<and> \<not> isError loaded_result
   \<and> data loaded_result = Some [leanne, ervin]
   \<and> rows (results (Home loaded_result example_nav)) = [(1, ''Leanne Graham''), (2, ''Ervin Howell'')]"
proof -
  have h: "\<not> isLoading loaded_result" "\<not> isError loaded_result"
    "data loaded_result = Some [leanne, ervin]"
    by (simp_all add: loaded_result_def)
  have "length (rows (results (Home loaded_result example_nav))) = 2"
    and "rows (results (Home loaded_result example_nav)) ! 0 = (1, ''Leanne Graham'')"
    and "rows (results (Home loaded_result example_nav)) ! 1 = (2, ''Ervin Howell'')"
    using Home_rows_in_order [OF h, of example_nav] by (auto simp: leanne_def ervin_def)
  then have "rows (results (Home loaded_result example_nav)) = [(1, ''Leanne Graham''), (2, ''Ervin Howell'')]"
    by (cases "rows (results (Home loaded_result example_nav))"; cases "tl (rows (results (Home loaded_result example_nav)))") auto
  with h show ?thesis by simp
qed

section \<open>The debounced write\<close>


text \<open>Time that passes in two pieces acts as the same time passing in one piece.\<close>

lemma Elapse_add:
  "Search_event (Elapse b) (Search_event (Elapse a) c) = Search_event (Elapse (a + b)) c"
  by (cases "timer c") (auto simp: Search_event_def)

text \<open>A keystroke alone does not write; the write comes when 300 ms have passed.\<close>

lemma Keystroke_then_quiet:
  "router (Search_event (Keystroke v) c) = router c"
  "300 \<le> d \<Longrightarrow> router (run [Keystroke v, Elapse d] c) = handleSearch v (router c)"
  "d < 300 \<Longrightarrow> router (run [Keystroke v, Elapse d] c) = router c"
  by (simp_all add: Search_event_def)

text \<open>Unmounting discards the pending write.\<close>

lemma Unmount_discards: "router (run [Keystroke v, Unmount, Elapse d] c) = router c"
  by (simp add: Search_event_def)





section \<open>The directory client\<close>

lemma undefined_no_scheme: "scheme_start_state (clean ''undefined'') = False"
  by (simp add: clean_def c0_or_space_def tab_or_newline_def ascii_alpha_def ascii_digit_def)

lemma new_URL_undefined: "new_URL rest None = Inl TypeError"
  using undefined_no_scheme by (simp add: new_URL_def USVString_def)

lemma new_URL_example: "new_URL example_rest (API_URL example_env) = Inr example_url"
proof -
  have c: "clean ''https://jsonplaceholder.typicode.com/users'' = ''https://jsonplaceholder.typicode.com/users''"
    by (simp add: clean_def c0_or_space_def tab_or_newline_def)
  have s: "scheme_start_state ''https://jsonplaceholder.typicode.com/users''"
    by (simp add: ascii_alpha_def ascii_digit_def)
  show ?thesis
    by (simp only: new_URL_def USVString_def example_env_def env.select_convs option.case
        Let_def c s if_True example_rest_def simp_thms)
qed

lemma getUsers_configured:
  assumes "new_URL rest (API_URL e) = Inr u"
  shows "getUsers rest network e params w =
           (case network (request_init (request_url u params)) of
              Inl reason \<Rightarrow> Inl (FetchRejected reason)
            | Inr r \<Rightarrow>
                if statusText r \<noteq> ''OK'' then Inl (Error ''Error fetching data'' (statusText r))
                else (case json r of None \<Rightarrow> Inl SyntaxError | Some d \<Rightarrow> Inr d),
            w\<lparr>requests := requests w @ [request_init (request_url u params)]\<rparr>)"
  using assms by (simp add: getUsers_def fetch_def split: sum.splits option.splits)

text \<open>
  C1. Let the base URL be configured and let the network answer
  the request with a response. If the status text is \<open>OK\<close> and the body parses as JSON,
  \<open>getUsers\<close> returns the parsed value; if the status text is \<open>OK\<close> and the body does not
  parse, the rejection of \<open>json()\<close> propagates; if the status text is anything else,
  \<open>getUsers\<close> throws the error whose cause is that status text. In each case exactly
  one request has been issued.
\<close>

theorem getUsers_outcome:
  assumes "new_URL rest (API_URL e) = Inr u"
      and "network (request_init (request_url u params)) = Inr r"
  shows "fst (getUsers rest network e params w) =
           (if statusText r = ''OK''
            then (case json r of Some d \<Rightarrow> Inr d | None \<Rightarrow> Inl SyntaxError)
            else Inl (Error ''Error fetching data'' (statusText r)))
       \<and> requests (snd (getUsers rest network e params w))
           = requests w @ [request_init (request_url u params)]"
  by (simp add: getUsers_configured [OF assms(1)] assms(2))

theorem getUsers_outcome_witness:
  "new_URL example_rest (API_URL example_env) = Inr example_url
   \<and> example_network (request_init (request_url example_url (Some leanne_params)))
       = Inr \<lparr>statusText = ''OK'', json = Some [leanne]\<rparr>
   \<and> fst (getUsers example_rest example_network example_env (Some leanne_params) start_world)
       = Inr [leanne]
   \<and> length (requests (snd (getUsers example_rest example_network example_env (Some leanne_params)
        start_world))) = 1"
proof -
  have n: "example_network (request_init (request_url example_url (Some leanne_params)))
             = Inr \<lparr>statusText = ''OK'', json = Some [leanne]\<rparr>"
    by (simp add: example_network_def request_init_def request_url_def leanne_params_def
        example_url_def URLSearchParams_append_def)
  show ?thesis
    using getUsers_outcome [where network = example_network and params = "Some leanne_params"
        and w = start_world, OF new_URL_example n] new_URL_example n
    by (simp add: start_world_def)
qed

text \<open>
  A response with status text \<open>OK\<close> whose body is not JSON: \<open>getUsers\<close> does not
  return the parsed body, it fails with the error of \<open>json()\<close>.
\<close>

theorem getUsers_not_json_counterexample:
  "not_json_network (request_init (request_url example_url None)) = Inr not_json_response
   \<and> statusText not_json_response = ''OK''
   \<and> fst (getUsers example_rest not_json_network example_env None start_world) = Inl SyntaxError"
  by (simp add: getUsers_configured [OF new_URL_example] not_json_network_def
      not_json_response_def)

lemma new_URL_named: "new_URL named_rest (API_URL named_env) = Inr named_url"
proof -
  have c: "clean ''https://jsonplaceholder.typicode.com/users?name=x''
             = ''https://jsonplaceholder.typicode.com/users?name=x''"
    by (simp add: clean_def c0_or_space_def tab_or_newline_def)
  have s: "scheme_start_state ''https://jsonplaceholder.typicode.com/users?name=x''"
    by (simp add: ascii_alpha_def ascii_digit_def)
  show ?thesis
    by (simp only: new_URL_def USVString_def named_env_def env.select_convs option.case
        Let_def c s if_True named_rest_def simp_thms)
qed

text \<open>
  C4. With the base URL configured, \<open>getUsers\<close> issues exactly one request. It is a
  \<open>GET\<close> request with the JSON content type, and its URL is the configured URL with
  the pair \<open>name\<close> = filter text added at the end of the query when the filter text is
  non-empty, and the configured URL itself when the filter text is empty or the
  parameters are absent. When the configured URL has no \<open>name\<close> parameter of its own,
  the \<open>name\<close> parameter of the request is the filter text in the first case and is
  missing in the second.
\<close>

theorem getUsers_request_url:
  assumes "new_URL rest (API_URL e) = Inr u"
  shows "requests (snd (getUsers rest network e params w))
           = requests w @
             [\<lparr>url = (if filter_text params \<noteq> []
                      then u\<lparr>searchParams := searchParams u @ [(''name'', filter_text params)]\<rparr>
                      else u),
               http_method = ''GET'',
               headers = [(''Content-Type'', ''application/json'')]\<rparr>]
       \<and> (''name'' \<notin> fst ` set (searchParams u) \<longrightarrow>
            URLSearchParams_get
              (searchParams (url (last (requests (snd (getUsers rest network e params w))))))
              ''name''
              = (if filter_text params \<noteq> [] then Some (filter_text params) else None))"
proof -
  have sent: "request_init (request_url u params)
          = \<lparr>url = (if filter_text params \<noteq> []
                    then u\<lparr>searchParams := searchParams u @ [(''name'', filter_text params)]\<rparr>
                    else u),
             http_method = ''GET'',
             headers = [(''Content-Type'', ''application/json'')]\<rparr>"
    by (cases params)
      (simp_all add: request_init_def request_url_def filter_text_def URLSearchParams_append_def)
  have log: "requests (snd (getUsers rest network e params w))
          = requests w @ [request_init (request_url u params)]"
    by (simp add: getUsers_configured [OF assms])
  have "''name'' \<notin> fst ` set (searchParams u) \<Longrightarrow>
        URLSearchParams_get (searchParams u @ [(''name'', v)]) ''name'' = Some v" for v
    using get_append_absent [of "''name''" "searchParams u" v]
    by (simp add: URLSearchParams_append_def)
  then show ?thesis
    by (simp add: log sent get_None_iff)
qed

theorem getUsers_request_url_witness:
  "requests (snd (getUsers example_rest example_network example_env (Some leanne_params) start_world))
     = [\<lparr>url = example_url\<lparr>searchParams := [(''name'', ''Leanne'')]\<rparr>, http_method = ''GET'',
         headers = [(''Content-Type'', ''application/json'')]\<rparr>]
   \<and> requests (snd (getUsers example_rest example_network example_env (Some \<lparr>name = []\<rparr>) start_world))
     = [\<lparr>url = example_url, http_method = ''GET'',
         headers = [(''Content-Type'', ''application/json'')]\<rparr>]
   \<and> requests (snd (getUsers example_rest example_network example_env None start_world))
     = [\<lparr>url = example_url, http_method = ''GET'',
         headers = [(''Content-Type'', ''application/json'')]\<rparr>]
   \<and> URLSearchParams_get
         (searchParams (url (last (requests (snd (getUsers example_rest example_network example_env
            (Some leanne_params) start_world)))))) ''name'' = Some ''Leanne''
   \<and> URLSearchParams_get
         (searchParams (url (last (requests (snd (getUsers example_rest example_network example_env
            None start_world)))))) ''name'' = None"
  using getUsers_request_url [OF new_URL_example, of example_network "Some leanne_params" start_world]
    getUsers_request_url [OF new_URL_example, of example_network "Some \<lparr>name = []\<rparr>" start_world]
    getUsers_request_url [OF new_URL_example, of example_network None start_world]
  by (simp add: filter_text_def leanne_params_def example_url_def start_world_def)

text \<open>
  A base URL that carries \<open>name=x\<close> itself: the request for absent parameters still has
  a \<open>name\<close> parameter, and in the request for \<open>Leanne\<close> the parameter \<open>name\<close> reads
  \<open>x\<close>, since the filter text is appended behind the pair of the base URL.
\<close>

theorem getUsers_named_base_counterexample:
  "requests (snd (getUsers named_rest example_network named_env None start_world))
     = [\<lparr>url = named_url, http_method = ''GET'',
         headers = [(''Content-Type'', ''application/json'')]\<rparr>]
   \<and> URLSearchParams_get (searchParams named_url) ''name'' = Some ''x''
   \<and> requests (snd (getUsers named_rest example_network named_env (Some leanne_params) start_world))
     = [\<lparr>url = named_url\<lparr>searchParams := [(''name'', ''x''), (''name'', ''Leanne'')]\<rparr>,
         http_method = ''GET'', headers = [(''Content-Type'', ''application/json'')]\<rparr>]
   \<and> URLSearchParams_get [(''name'', ''x''), (''name'', ''Leanne'')] ''name'' = Some ''x''"
  by (simp add: getUsers_configured [OF new_URL_named] request_init_def request_url_def
      URLSearchParams_append_def leanne_params_def named_url_def start_world_def)

text \<open>
  C8. When the environment variable is not set, every call of \<open>getUsers\<close> fails with the
  \<open>TypeError\<close> of the URL constructor, whatever the parameters and the network are; the
  log of requests is unchanged, so no request was issued, and no data is returned.
\<close>

theorem getUsers_unconfigured:
  "API_URL e = None \<Longrightarrow> getUsers rest network e params w = (Inl TypeError, w)"
  by (simp add: getUsers_def new_URL_undefined)

theorem getUsers_unconfigured_witness:
  "API_URL unconfigured_env = None
   \<and> getUsers example_rest example_network unconfigured_env (Some leanne_params) start_world
       = (Inl TypeError, start_world)"
proof -
  have h: "API_URL unconfigured_env = None"
    by (simp add: unconfigured_env_def)
  show ?thesis
    using h getUsers_unconfigured [OF h, of example_rest example_network "Some leanne_params" start_world]
    by simp
qed

section \<open>The cached query hook\<close>

text \<open>Once the window has passed, a request for the same key goes to the network again.\<close>

lemma useQuery_after_window:
  assumes "refetch (useGetUsers rest network e p) t1 s = (Inr d, s1)"
      and "t1 + 300000 \<le> t2"
  shows "useQuery (useGetUsers rest network e p) t2 s1 = refetch (useGetUsers rest network e p) t2 s1"
proof -
  from assms(1)
  have "fst s1 = ((''users'', p), \<lparr>resolved = d, updatedAt = t1\<rparr>) # fst s"
    by (auto simp: refetch_def useGetUsers_def split: prod.splits sum.splits)
  then show ?thesis
    using assms(2) by (simp add: useQuery_def useGetUsers_def)
qed

text \<open>A request that goes to the network adds at most an entry under its own key.\<close>

lemma refetch_other_key:
  "q \<noteq> p \<Longrightarrow>
   map_of (fst (snd (refetch (useGetUsers rest network e q) t s))) (''users'', p)
     = map_of (fst s) (''users'', p)"
  by (simp add: refetch_def useGetUsers_def split: prod.splits sum.splits)

text \<open>
  An entry stays the one found under its key through a request for another key, and
  through a request for its own key made while it is fresh.
\<close>

lemma useQuery_keeps_entry:
  assumes "map_of (fst s) (''users'', p) = Some \<lparr>resolved = d, updatedAt = t1\<rparr>"
      and "name q = name p \<longrightarrow> t < t1 + 300000"
  shows "map_of (fst (snd (useQuery (useGetUsers rest network e q) t s))) (''users'', p)
           = Some \<lparr>resolved = d, updatedAt = t1\<rparr>"
proof (cases "q = p")
  case True
  with assms show ?thesis
    by (simp add: useQuery_def useGetUsers_def)
next
  case False
  have "map_of (fst (snd (useQuery (useGetUsers rest network e q) t s))) (''users'', p)
          = map_of (fst s) (''users'', p)"
    using refetch_other_key [OF False, of rest network e t s]
    by (simp add: useQuery_def split: option.splits)
  with assms(1) show ?thesis by simp
qed

lemma serve_keeps_entry:
  assumes "map_of (fst s) (''users'', p) = Some \<lparr>resolved = d, updatedAt = t1\<rparr>"
      and "\<forall>(q, t) \<in> set between. name q = name p \<longrightarrow> t < t1 + 300000"
  shows "map_of (fst (serve rest network e between s)) (''users'', p)
           = Some \<lparr>resolved = d, updatedAt = t1\<rparr>"
  using assms
proof (induction between arbitrary: s)
  case Nil
  then show ?case by simp
next
  case (Cons x between)
  obtain q t where x: "x = (q, t)" by (cases x)
  from Cons.prems(2) x have now: "name q = name p \<longrightarrow> t < t1 + 300000"
    and later: "\<forall>(q, t) \<in> set between. name q = name p \<longrightarrow> t < t1 + 300000"
    by auto
  from Cons.IH [OF useQuery_keeps_entry [OF Cons.prems(1) now] later] x
  show ?case by simp
qed

text \<open>
  C9. The hook sets the freshness window to 300000 ms, five minutes. In the cache as
  the specification describes it, let a request for some filter parameters resolve
  through the network at time \<open>t1\<close>, and let any series of further requests follow,
  for these or other parameters, those for these parameters before \<open>t1 + 300000\<close>.
  Then a request with equal filter parameters at any time before \<open>t1 + 300000\<close> gets
  the result stored at \<open>t1\<close> and leaves the cache and the world as they are: no
  request is issued for it.
\<close>

theorem useGetUsers_fresh_window:
  assumes "refetch (useGetUsers rest network e p) t1 s = (Inr d, s1)"
      and "\<forall>(q, t) \<in> set between. name q = name p \<longrightarrow> t < t1 + 300000"
      and "name p' = name p" and "t2 < t1 + 300000"
  shows "staleTime (useGetUsers rest network e p) = 300000
       \<and> useQuery (useGetUsers rest network e p') t2 (serve rest network e between s1)
           = (Inr d, serve rest network e between s1)"
proof -
  have same: "p' = p" using assms(3) by simp
  from assms(1)
  have "fst s1 = ((''users'', p), \<lparr>resolved = d, updatedAt = t1\<rparr>) # fst s"
    by (auto simp: refetch_def useGetUsers_def split: prod.splits sum.splits)
  then have "map_of (fst s1) (''users'', p) = Some \<lparr>resolved = d, updatedAt = t1\<rparr>"
    by simp
  from serve_keeps_entry [OF this assms(2)]
  have "map_of (fst (serve rest network e between s1)) (''users'', p)
          = Some \<lparr>resolved = d, updatedAt = t1\<rparr>" .
  with same assms(4) show ?thesis
    by (simp add: useQuery_def useGetUsers_def)
qed

lemma example_network_Leanne:
  "example_network (request_init (request_url example_url (Some leanne_params)))
     = Inr \<lparr>statusText = ''OK'', json = Some [leanne]\<rparr>"
  by (simp add: example_network_def request_init_def request_url_def leanne_params_def
      example_url_def URLSearchParams_append_def)

lemma example_network_all:
  "example_network (request_init (request_url example_url (Some \<lparr>name = []\<rparr>)))
     = Inr \<lparr>statusText = ''OK'', json = Some [leanne, ervin]\<rparr>"
  by (simp add: example_network_def request_init_def request_url_def example_url_def)

theorem useGetUsers_fresh_window_witness:
  "useQuery (useGetUsers example_rest example_network example_env \<lparr>name = ''Leanne''\<rparr>) 2000
     (serve example_rest example_network example_env [(\<lparr>name = []\<rparr>, 1000)]
        ([((''users'', leanne_params), \<lparr>resolved = [leanne], updatedAt = 0\<rparr>)],
         \<lparr>requests = [request_init (request_url example_url (Some leanne_params))]\<rparr>))
     = (Inr [leanne],
        [((''users'', \<lparr>name = []\<rparr>), \<lparr>resolved = [leanne, ervin], updatedAt = 1000\<rparr>),
         ((''users'', leanne_params), \<lparr>resolved = [leanne], updatedAt = 0\<rparr>)],
        \<lparr>requests = [request_init (request_url example_url (Some leanne_params)),
                     request_init (request_url example_url (Some \<lparr>name = []\<rparr>))]\<rparr>)"
proof -
  have r: "refetch (useGetUsers example_rest example_network example_env leanne_params) 0 ([], start_world)
     = (Inr [leanne],
        [((''users'', leanne_params), \<lparr>resolved = [leanne], updatedAt = 0\<rparr>)],
        \<lparr>requests = [request_init (request_url example_url (Some leanne_params))]\<rparr>)"
    by (simp add: refetch_def useGetUsers_def getUsers_configured [OF new_URL_example]
        example_network_Leanne start_world_def)
  have other: "(\<lparr>name = []\<rparr> :: GetUsersParams) \<noteq> leanne_params"
    by (simp add: leanne_params_def)
  have b: "\<forall>(q, t) \<in> set [(\<lparr>name = []\<rparr>, 1000::nat)]. name q = name leanne_params \<longrightarrow> t < 0 + 300000"
    by simp
  have k: "name \<lparr>name = ''Leanne''\<rparr> = name leanne_params"
    by (simp add: leanne_params_def)
  have t: "(2000::nat) < 0 + 300000" by simp
  have s: "serve example_rest example_network example_env [(\<lparr>name = []\<rparr>, 1000)]
        ([((''users'', leanne_params), \<lparr>resolved = [leanne], updatedAt = 0\<rparr>)],
         \<lparr>requests = [request_init (request_url example_url (Some leanne_params))]\<rparr>)
     = ([((''users'', \<lparr>name = []\<rparr>), \<lparr>resolved = [leanne, ervin], updatedAt = 1000\<rparr>),
         ((''users'', leanne_params), \<lparr>resolved = [leanne], updatedAt = 0\<rparr>)],
        \<lparr>requests = [request_init (request_url example_url (Some leanne_params)),
                     request_init (request_url example_url (Some \<lparr>name = []\<rparr>))]\<rparr>)"
    using other
    by (simp add: useQuery_def refetch_def useGetUsers_def getUsers_configured [OF new_URL_example]
        example_network_all)
  from useGetUsers_fresh_window [OF r b k t] have
    "useQuery (useGetUsers example_rest example_network example_env \<lparr>name = ''Leanne''\<rparr>) 2000
       (serve example_rest example_network example_env [(\<lparr>name = []\<rparr>, 1000)]
          ([((''users'', leanne_params), \<lparr>resolved = [leanne], updatedAt = 0\<rparr>)],
           \<lparr>requests = [request_init (request_url example_url (Some leanne_params))]\<rparr>))
     = (Inr [leanne],
        serve example_rest example_network example_env [(\<lparr>name = []\<rparr>, 1000)]
          ([((''users'', leanne_params), \<lparr>resolved = [leanne], updatedAt = 0\<rparr>)],
           \<lparr>requests = [request_init (request_url example_url (Some leanne_params))]\<rparr>))"
    by (rule conjunct2)
  then show ?thesis
    by (simp only: s)
qed

end
